theory Spec2Isabelle
  imports Complex_Main
begin

section \<open>Data model of the quiz runner (src/app.js)\<close>

text \<open>
  JavaScript numbers are modelled as follows. Indices, option numbers and the countdown
  are integer-valued doubles, held as \<open>int\<close>; where the code increments or decrements
  one of them, the model stores the double nearest to the exact result
  (\<open>round_double\<close> below). The pass threshold and the percentage are \<open>real\<close>.
  A property that may be \<open>undefined\<close> is an \<open>option\<close>.
  The \<open>answers\<close> object is a map from its own property keys (question ids) to the
  numbers stored under them; a property that \<open>answers\<close> only inherits is never a
  number and reads as \<open>None\<close>.
\<close>

type_synonym key = string

record question =
  id_q :: key
  text_q :: string
  options :: "string list"
  correctIndex :: int
  topic :: "string option"

text \<open>The quiz definition as fetched: \<open>{ title, timeLimitSec, passThreshold, questions }\<close>.\<close>

record quiz =
  quiz_title :: string
  quiz_timeLimitSec :: int
  quiz_passThreshold :: real
  quiz_questions :: "question list"

record summary =
  correct :: int
  total :: int
  percent :: real
  passed :: bool

text \<open>The fields of \<open>class QuizEngine\<close>; \<open>summary_cache\<close> is the field \<open>_summary\<close>.\<close>

record engine =
  title :: string
  timeLimitSec :: int
  passThreshold :: real
  questions :: "question list"
  currentIndex :: int
  answers :: "key \<rightharpoonup> int"
  remainingSec :: int
  isFinished :: bool
  summary_cache :: "summary option"

text \<open>
  The persisted snapshot. \<open>fromState\<close> reads every field but \<open>quizTitle\<close> through
  a default (\<open>||\<close>, \<open>??\<close>, \<open>!!\<close>), so each of them may be missing.
\<close>

record snapshot =
  quizTitle :: string
  snap_currentIndex :: "int option"
  snap_answers :: "(key \<rightharpoonup> int) option"
  snap_remainingSec :: "int option"
  snap_isFinished :: "bool option"

section \<open>Numbers and objects of the language\<close>

text \<open>The number of binary digits of a natural number.\<close>

fun bit_length :: "nat \<Rightarrow> nat" where
  "bit_length n = (if n = 0 then 0 else Suc (bit_length (n div 2)))"

declare bit_length.simps [simp del]

text \<open>
  The double nearest to an integer, ties to the even significand. A double has 53
  significant bits, so every integer up to \<open>2 ^ 53\<close> in absolute value is exact; beyond,
  the doubles lie \<open>2 ^ k\<close> apart, where \<open>k\<close> is the number of bits above 53.
  \<open>x++\<close> stores \<open>round_double (x + 1)\<close> and \<open>x--\<close> stores \<open>round_double (x - 1)\<close>.
\<close>

definition round_double :: "int \<Rightarrow> int" where
  "round_double n =
     (if \<bar>n\<bar> \<le> 2 ^ 53 then n
      else
        (let u = 2 ^ (bit_length (nat \<bar>n\<bar>) - 53);
             q = n div u;
             r = n mod u
         in if 2 * r < u then q * u
            else if 2 * r > u then (q + 1) * u
            else if even q then q * u else (q + 1) * u))"

text \<open>
  \<open>obj[k] = v\<close> for a number \<open>v\<close> on a plain object. Every key becomes an own property
  but \<open>__proto__\<close>: unless the object already has it as an own property (as an object
  read by \<open>JSON.parse\<close> may), the assignment reaches the setter inherited from
  \<open>Object.prototype\<close>, which ignores a number, and nothing is stored.
\<close>

definition assign_property :: "(key \<rightharpoonup> int) \<Rightarrow> key \<Rightarrow> int \<Rightarrow> (key \<rightharpoonup> int)" where
  "assign_property obj k v = (if k = ''__proto__'' \<and> obj k = None then obj else obj(k \<mapsto> v))"

section \<open>Question\<close>

text \<open>\<open>new Question(q)\<close>: copies the fields; \<open>q.topic || null\<close> drops an empty topic.\<close>

definition Question :: "question \<Rightarrow> question" where
  "Question q =
     \<lparr> id_q = id_q q, text_q = text_q q, options = options q,
       correctIndex = correctIndex q,
       topic = (case topic q of None \<Rightarrow> None
                | Some t \<Rightarrow> if t = [] then None else Some t) \<rparr>"

text \<open>\<open>isCorrect(idx)\<close>: \<open>idx === this.correctIndex\<close>, where \<open>idx\<close> may be \<open>undefined\<close>.\<close>

definition isCorrect :: "question \<Rightarrow> int option \<Rightarrow> bool" where
  "isCorrect q idx = (idx = Some (correctIndex q))"

section \<open>QuizEngine\<close>

text \<open>The constructor; \<open>x || d\<close> on a number takes \<open>d\<close> when \<open>x\<close> is \<open>0\<close>.\<close>

definition QuizEngine :: "quiz \<Rightarrow> engine" where
  "QuizEngine qz =
     (let tl = (if quiz_timeLimitSec qz = 0 then 300 else quiz_timeLimitSec qz) in
      \<lparr> title = quiz_title qz,
        timeLimitSec = tl,
        passThreshold = (if quiz_passThreshold qz = 0 then 7 / 10 else quiz_passThreshold qz),
        questions = map Question (quiz_questions qz),
        currentIndex = 0,
        answers = Map.empty,
        remainingSec = tl,
        isFinished = False,
        summary_cache = None \<rparr>)"

definition length_e :: "engine \<Rightarrow> int" where
  "length_e e = int (length (questions e))"

text \<open>\<open>this.questions[this.currentIndex]\<close>: \<open>undefined\<close> outside the array.\<close>

definition currentQuestion :: "engine \<Rightarrow> question option" where
  "currentQuestion e =
     (if 0 \<le> currentIndex e \<and> currentIndex e < length_e e
      then Some (questions e ! nat (currentIndex e)) else None)"

text \<open>\<open>next()\<close> and \<open>prev()\<close>: \<open>currentIndex++\<close> and \<open>currentIndex--\<close> under their guards.\<close>

definition next_e :: "engine \<Rightarrow> engine" where
  "next_e e =
     (if currentIndex e < length_e e - 1
      then e\<lparr>currentIndex := round_double (currentIndex e + 1)\<rparr> else e)"

definition prev_e :: "engine \<Rightarrow> engine" where
  "prev_e e =
     (if currentIndex e > 0 then e\<lparr>currentIndex := round_double (currentIndex e - 1)\<rparr> else e)"

definition goTo :: "int \<Rightarrow> engine \<Rightarrow> engine" where
  "goTo idx e =
     (let idx1 = (if idx < 0 then 0 else idx);
          idx2 = (if idx1 \<ge> length_e e then length_e e - 1 else idx1)
      in e\<lparr>currentIndex := idx2\<rparr>)"

text \<open>\<open>select(optIdx)\<close>: three early returns, then \<open>this.answers[q.id] = optIdx\<close>.\<close>

definition select :: "int \<Rightarrow> engine \<Rightarrow> engine" where
  "select optIdx e =
     (if isFinished e then e
      else case currentQuestion e of
             None \<Rightarrow> e
           | Some q \<Rightarrow>
               if optIdx < 0 \<or> optIdx \<ge> int (length (options q)) then e
               else e\<lparr>answers := assign_property (answers e) (id_q q) optIdx\<rparr>)"

text \<open>
  \<open>getSelected()\<close>: the number recorded for the current question, \<open>None\<close> when
  there is none.
\<close>

definition getSelected :: "engine \<Rightarrow> int option" where
  "getSelected e = (case currentQuestion e of None \<Rightarrow> None | Some q \<Rightarrow> answers e (id_q q))"

text \<open>The scoring pass of \<open>finish\<close>: the \<open>forEach\<close> loop and the three constants after it.\<close>

definition count_correct :: "engine \<Rightarrow> int" where
  "count_correct e =
     fold (\<lambda>q c. if isCorrect q (answers e (id_q q)) then c + 1 else c) (questions e) 0"

definition score :: "engine \<Rightarrow> summary" where
  "score e =
     (let c = count_correct e;
          t = length_e e;
          p = (if t \<noteq> 0 then real_of_int c / real_of_int t else 0)
      in \<lparr> correct = c, total = t, percent = p, passed = (p \<ge> passThreshold e) \<rparr>)"

text \<open>\<open>finish()\<close> returns the summary and the engine after the call.\<close>

definition finish :: "engine \<Rightarrow> summary \<times> engine" where
  "finish e =
     (case (if isFinished e then summary_cache e else None) of
        Some s \<Rightarrow> (s, e)
      | None \<Rightarrow> (let s = score e in (s, e\<lparr>isFinished := True, summary_cache := Some s\<rparr>)))"

text \<open>\<open>tick()\<close>: the guard on \<open>isFinished\<close>, then \<open>remainingSec--\<close> or \<open>finish()\<close>.\<close>

definition tick :: "engine \<Rightarrow> engine" where
  "tick e =
     (if isFinished e then e
      else if remainingSec e > 0 then
        (let e1 = e\<lparr>remainingSec := round_double (remainingSec e - 1)\<rparr>
         in if remainingSec e1 \<le> 0 then snd (finish e1) else e1)
      else snd (finish e))"

definition toState :: "engine \<Rightarrow> snapshot" where
  "toState e =
     \<lparr> quizTitle = title e,
       snap_currentIndex = Some (currentIndex e),
       snap_answers = Some (answers e),
       snap_remainingSec = Some (remainingSec e),
       snap_isFinished = Some (isFinished e) \<rparr>"

text \<open>\<open>fromState(quiz, state)\<close>; \<open>None\<close> is a \<open>null\<close> state.\<close>

definition fromState :: "quiz \<Rightarrow> snapshot option \<Rightarrow> engine" where
  "fromState qz state =
     (let eng = QuizEngine qz in
      case state of
        None \<Rightarrow> eng
      | Some st \<Rightarrow>
          if quizTitle st \<noteq> quiz_title qz then eng
          else eng\<lparr> currentIndex :=
                      (case snap_currentIndex st of None \<Rightarrow> 0
                       | Some i \<Rightarrow> if i = 0 then 0 else i),
                    answers := (case snap_answers st of None \<Rightarrow> Map.empty | Some a \<Rightarrow> a),
                    remainingSec :=
                      (case snap_remainingSec st of None \<Rightarrow> quiz_timeLimitSec qz
                       | Some r \<Rightarrow> r),
                    isFinished := (case snap_isFinished st of None \<Rightarrow> False | Some b \<Rightarrow> b) \<rparr>)"

section \<open>Sequences of engine operations\<close>

datatype operation = Next | Prev | GoTo int | Select int | Tick | Finish

fun apply_op :: "operation \<Rightarrow> engine \<Rightarrow> engine" where
  "apply_op Next e = next_e e"
| "apply_op Prev e = prev_e e"
| "apply_op (GoTo i) e = goTo i e"
| "apply_op (Select i) e = select i e"
| "apply_op Tick e = tick e"
| "apply_op Finish e = snd (finish e)"

definition run :: "operation list \<Rightarrow> engine \<Rightarrow> engine" where
  "run ops e = fold apply_op ops e"

section \<open>Example quizzes\<close>

text \<open>
  \<open>quiz2\<close> is the two-question quiz of the scoring scenario, \<open>quiz0\<close> has no
  questions, \<open>quiz_free\<close> asks for a pass threshold of \<open>0\<close>, \<open>quiz_1s\<close> has a time
  limit of one second, \<open>quiz_long\<close> one of \<open>10 ^ 16\<close> seconds, and the second question
  of \<open>quiz_proto\<close> has the id \<open>__proto__\<close>. \<open>reloaded_finished\<close> is the engine the
  page builds on reload from the snapshot saved after \<open>finish()\<close>.
\<close>


definition quiz2 :: quiz where
  "quiz2 =
     \<lparr> quiz_title = ''Demo'', quiz_timeLimitSec = 60, quiz_passThreshold = 1 / 2,
       quiz_questions =
         [\<lparr> id_q = ''q1'', text_q = ''first'', options = [''a'', ''b''], correctIndex = 1,
             topic = None \<rparr>,
          \<lparr> id_q = ''q2'', text_q = ''second'', options = [''a'', ''b''], correctIndex = 0,
             topic = None \<rparr>] \<rparr>"

definition quiz0 :: quiz where
  "quiz0 = \<lparr> quiz_title = ''Empty'', quiz_timeLimitSec = 60, quiz_passThreshold = 0,
             quiz_questions = [] \<rparr>"

definition quiz_free :: quiz where
  "quiz_free = \<lparr> quiz_title = ''Free pass'', quiz_timeLimitSec = 60, quiz_passThreshold = 0,
                 quiz_questions =
                   [\<lparr> id_q = ''q1'', text_q = ''only'', options = [''a'', ''b''],
                      correctIndex = 0, topic = None \<rparr>] \<rparr>"

definition quiz_1s :: quiz where
  "quiz_1s = \<lparr> quiz_title = ''Blitz'', quiz_timeLimitSec = 1, quiz_passThreshold = 1 / 2,
               quiz_questions =
                 [\<lparr> id_q = ''q1'', text_q = ''only'', options = [''a'', ''b''],
                    correctIndex = 0, topic = None \<rparr>] \<rparr>"

definition quiz_long :: quiz where
  "quiz_long = \<lparr> quiz_title = ''Marathon'', quiz_timeLimitSec = 10000000000000000,
                 quiz_passThreshold = 1 / 2,
                 quiz_questions =
                   [\<lparr> id_q = ''q1'', text_q = ''only'', options = [''a'', ''b''],
                      correctIndex = 0, topic = None \<rparr>] \<rparr>"

definition quiz_proto :: quiz where
  "quiz_proto =
     \<lparr> quiz_title = ''Keys'', quiz_timeLimitSec = 60, quiz_passThreshold = 1 / 2,
       quiz_questions =
         [\<lparr> id_q = ''q1'', text_q = ''first'', options = [''a'', ''b''], correctIndex = 1,
             topic = None \<rparr>,
          \<lparr> id_q = ''__proto__'', text_q = ''second'', options = [''a'', ''b''],
             correctIndex = 1, topic = None \<rparr>] \<rparr>"

definition reloaded_finished :: engine where
  "reloaded_finished = fromState quiz2 (Some (toState (snd (finish (QuizEngine quiz2)))))"

section \<open>The cache invariant\<close>

text \<open>
  A cached summary exists only on a finished engine and is the score of the engine's
  present answers. The constructor, \<open>fromState\<close> and every operation keep it.
\<close>

definition cache_ok :: "engine \<Rightarrow> bool" where
  "cache_ok e = (case summary_cache e of None \<Rightarrow> True | Some s \<Rightarrow> isFinished e \<and> s = score e)"

section \<open>Auxiliary facts\<close>

text \<open>Integers of at most 53 bits are doubles; \<open>10 ^ 16 - 1\<close> is not.\<close>

lemma round_double_exact [simp]: "\<bar>n\<bar> \<le> 2 ^ 53 \<Longrightarrow> round_double n = n"
  by (simp add: round_double_def)

lemma bit_length_between: "2 ^ k \<le> n \<Longrightarrow> n < 2 ^ Suc k \<Longrightarrow> bit_length n = Suc k"
proof (induction k arbitrary: n)
  case 0
  then have "n = 1" by simp
  then show ?case
    by (simp add: bit_length.simps [of "Suc 0"] bit_length.simps [of 0])
next
  case (Suc k)
  from Suc.prems have "2 ^ k \<le> n div 2" and "n div 2 < 2 ^ Suc k" and "n \<noteq> 0"
    by auto
  with Suc.IH [of "n div 2"] show ?case
    by (simp add: bit_length.simps [of n])
qed

lemma bit_length_1e16: "bit_length 9999999999999999 = 54"
proof -
  have "bit_length 9999999999999999 = Suc 53"
    by (rule bit_length_between) simp_all
  then show ?thesis by simp
qed

lemma round_double_1e16: "round_double 9999999999999999 = 10000000000000000"
  by (simp add: round_double_def bit_length_1e16 Let_def)

lemma assign_property_plain [simp]:
  "k \<noteq> ''__proto__'' \<Longrightarrow> assign_property obj k v = obj(k \<mapsto> v)"
  by (simp add: assign_property_def)

text \<open>The counting loop of \<open>finish\<close> counts the questions that satisfy the test.\<close>

lemma fold_count:
  "fold (\<lambda>q c. if P q then c + 1 else c) qs (n::int) = n + int (length (filter P qs))"
  by (induction qs arbitrary: n) auto

lemma count_correct_filter:
  "count_correct e =
     int (length (filter (\<lambda>q. answers e (id_q q) = Some (correctIndex q)) (questions e)))"
  by (simp add: count_correct_def isCorrect_def fold_count)

text \<open>The score reads \<open>questions\<close>, \<open>answers\<close> and \<open>passThreshold\<close> only.\<close>

lemma score_currentIndex [simp]: "score (e\<lparr>currentIndex := i\<rparr>) = score e"
  by (simp add: score_def count_correct_def length_e_def)

lemma score_remainingSec [simp]: "score (e\<lparr>remainingSec := r\<rparr>) = score e"
  by (simp add: score_def count_correct_def length_e_def)

lemma score_isFinished [simp]: "score (e\<lparr>isFinished := b\<rparr>) = score e"
  by (simp add: score_def count_correct_def length_e_def)

lemma score_summary_cache [simp]: "score (e\<lparr>summary_cache := c\<rparr>) = score e"
  by (simp add: score_def count_correct_def length_e_def)

text \<open>Preservation of the invariant.\<close>

lemma cache_ok_QuizEngine: "cache_ok (QuizEngine qz)"
  by (simp add: cache_ok_def QuizEngine_def Let_def)

lemma cache_ok_fromState: "cache_ok (fromState qz st)"
  by (simp add: cache_ok_def fromState_def QuizEngine_def Let_def split: option.splits)

lemma cache_ok_finish: "cache_ok e \<Longrightarrow> cache_ok (snd (finish e))"
  by (auto simp: cache_ok_def finish_def Let_def split: option.splits if_splits)

lemma cache_ok_next: "cache_ok e \<Longrightarrow> cache_ok (next_e e)"
  by (simp add: cache_ok_def next_e_def split: option.splits)

lemma cache_ok_prev: "cache_ok e \<Longrightarrow> cache_ok (prev_e e)"
  by (simp add: cache_ok_def prev_e_def split: option.splits)

lemma cache_ok_goTo: "cache_ok e \<Longrightarrow> cache_ok (goTo i e)"
  by (simp add: cache_ok_def goTo_def Let_def split: option.splits)

lemma cache_ok_select: "cache_ok e \<Longrightarrow> cache_ok (select i e)"
proof (cases "isFinished e")
  case True
  assume "cache_ok e"
  with True show ?thesis by (simp add: select_def)
next
  case False
  assume "cache_ok e"
  with False have "summary_cache e = None"
    by (auto simp: cache_ok_def split: option.splits)
  then show ?thesis
    by (simp add: cache_ok_def select_def split: option.splits)
qed

lemma cache_ok_tick: "cache_ok e \<Longrightarrow> cache_ok (tick e)"
proof (cases "isFinished e")
  case True
  assume "cache_ok e"
  with True show ?thesis by (simp add: tick_def)
next
  case False
  assume ok: "cache_ok e"
  with False have "summary_cache e = None"
    by (auto simp: cache_ok_def split: option.splits)
  then have "cache_ok (e\<lparr>remainingSec := round_double (remainingSec e - 1)\<rparr>)"
    by (simp add: cache_ok_def)
  with ok show ?thesis
    by (simp add: tick_def Let_def cache_ok_finish)
qed

lemma cache_ok_apply_op: "cache_ok e \<Longrightarrow> cache_ok (apply_op op e)"
  by (cases op)
    (simp_all add: cache_ok_next cache_ok_prev cache_ok_goTo cache_ok_select cache_ok_tick
       cache_ok_finish)

lemma cache_ok_run: "cache_ok e \<Longrightarrow> cache_ok (run ops e)"
  unfolding run_def by (induction ops arbitrary: e) (simp_all add: cache_ok_apply_op)

lemma finish_cache_ok: "cache_ok e \<Longrightarrow> fst (finish e) = score e \<and> isFinished (snd (finish e))"
  by (auto simp: cache_ok_def finish_def Let_def split: option.splits)


text \<open>No operation changes \<open>title\<close>, and none leaves the finished state.\<close>

lemma finish_title: "title (snd (finish e)) = title e"
  by (simp add: finish_def Let_def split: option.splits)

lemma apply_op_title: "title (apply_op op e) = title e"
  by (cases op)
    (simp_all add: next_e_def prev_e_def goTo_def select_def tick_def finish_title Let_def
       split: option.splits)

lemma run_title: "title (run ops e) = title e"
  unfolding run_def by (induction ops arbitrary: e) (simp_all add: apply_op_title)

lemma finish_isFinished: "isFinished (snd (finish e))"
  by (simp add: finish_def Let_def split: option.splits)

lemma apply_op_isFinished: "isFinished e \<Longrightarrow> isFinished (apply_op op e)"
  by (cases op)
    (simp_all add: next_e_def prev_e_def goTo_def select_def tick_def finish_isFinished Let_def)

lemma run_isFinished: "isFinished e \<Longrightarrow> isFinished (run ops e)"
  unfolding run_def by (induction ops arbitrary: e) (simp_all add: apply_op_isFinished)

text \<open>
  What \<open>select\<close> does at the cursor. The question is the one \<open>questions\<close> holds at
  \<open>currentIndex\<close>; its id is an ordinary key, or is already an own property of
  \<open>answers\<close>.
\<close>

lemma select_at_cursor:
  assumes "\<not> isFinished e"
    and "0 \<le> currentIndex e" and "currentIndex e < int (length (questions e))"
    and "0 \<le> i" and "i < int (length (options (questions e ! nat (currentIndex e))))"
    and "id_q (questions e ! nat (currentIndex e)) \<noteq> ''__proto__'' \<or>
         answers e ''__proto__'' \<noteq> None"
  shows "select i e = e\<lparr>answers := (answers e)(id_q (questions e ! nat (currentIndex e)) \<mapsto> i)\<rparr>"
  using assms
  by (auto simp: select_def currentQuestion_def length_e_def assign_property_def)

lemma select_unchanged:
  assumes "isFinished e \<or> currentIndex e < 0 \<or> int (length (questions e)) \<le> currentIndex e \<or>
           i < 0 \<or> int (length (options (questions e ! nat (currentIndex e)))) \<le> i"
  shows "select i e = e"
  using assms
  by (auto simp: select_def currentQuestion_def length_e_def)

text \<open>The definitions unfolded when an engine is run on a concrete quiz.\<close>

lemmas eval_defs =
  run_def QuizEngine_def fromState_def toState_def Question_def select_def next_e_def
  prev_e_def goTo_def tick_def finish_def score_def count_correct_def isCorrect_def
  currentQuestion_def length_e_def Let_def

section \<open>The claims\<close>

text \<open>
  Claim C1. For every engine reached from the constructor or from \<open>fromState\<close> by any
  sequence of operations, \<open>finish()\<close> returns the summary in which \<open>correct\<close> counts
  the questions whose recorded answer equals their \<open>correctIndex\<close>, \<open>total\<close> is the
  number of questions, \<open>percent\<close> is \<open>correct / total\<close> (and \<open>0\<close> without questions)
  and \<open>passed\<close> is \<open>percent \<ge> passThreshold\<close>; the engine is finished afterwards.
  In the two-question scenario the summary is \<open>{correct:1, total:2, percent:0.5, passed:true}\<close>.
\<close>

theorem finish_summary:
  "(let e = run ops (fromState qz st); s = fst (finish e) in
      correct s =
        int (length (filter (\<lambda>q. answers e (id_q q) = Some (correctIndex q)) (questions e))) \<and>
      total s = int (length (questions e)) \<and>
      percent s = (if total s > 0 then real_of_int (correct s) / real_of_int (total s) else 0) \<and>
      passed s = (percent s \<ge> passThreshold e) \<and>
      isFinished (snd (finish e)))
   \<and> fst (finish (run [Select 1, Next, Select 1] (QuizEngine quiz2)))
       = \<lparr> correct = 1, total = 2, percent = 1 / 2, passed = True \<rparr>"
proof
  have ok: "cache_ok (run ops (fromState qz st))"
    by (rule cache_ok_run) (rule cache_ok_fromState)
  have fin: "fst (finish (run ops (fromState qz st))) = score (run ops (fromState qz st))"
    and finished: "isFinished (snd (finish (run ops (fromState qz st))))"
    using finish_cache_ok [OF ok] by simp_all
  show "let e = run ops (fromState qz st); s = fst (finish e) in
      correct s =
        int (length (filter (\<lambda>q. answers e (id_q q) = Some (correctIndex q)) (questions e))) \<and>
      total s = int (length (questions e)) \<and>
      percent s = (if total s > 0 then real_of_int (correct s) / real_of_int (total s) else 0) \<and>
      passed s = (percent s \<ge> passThreshold e) \<and>
      isFinished (snd (finish e))"
    unfolding Let_def fin using finished
    by (simp add: score_def Let_def count_correct_filter length_e_def)
next
  show "fst (finish (run [Select 1, Next, Select 1] (QuizEngine quiz2)))
       = \<lparr> correct = 1, total = 2, percent = 1 / 2, passed = True \<rparr>"
    by (simp add: eval_defs quiz2_def)
qed

theorem finish_summary_witness:
  "total (fst (finish (QuizEngine quiz0))) = 0 \<and>
   percent (fst (finish (QuizEngine quiz0))) = 0 \<and>
   passed (fst (finish (QuizEngine quiz0))) = (0 \<ge> passThreshold (QuizEngine quiz0)) \<and>
   isFinished (snd (finish (QuizEngine quiz0)))"
proof -
  have start: "run [] (fromState quiz0 None) = QuizEngine quiz0"
    by (simp add: run_def fromState_def)
  have empty: "questions (QuizEngine quiz0) = []"
    by (simp add: QuizEngine_def quiz0_def)
  show ?thesis
    using finish_summary [of "[]" quiz0 None] unfolding start Let_def empty by simp
qed

text \<open>
  Claim C2. For an engine built by the constructor and driven by any sequence of
  operations, \<open>fromState(quiz, e.toState())\<close> has the same \<open>currentIndex\<close>,
  \<open>answers\<close>, \<open>remainingSec\<close> and \<open>isFinished\<close> as \<open>e\<close>.
\<close>

theorem toState_fromState_roundtrip:
  "(let e = run ops (QuizEngine qz); e' = fromState qz (Some (toState e)) in
      currentIndex e' = currentIndex e \<and> answers e' = answers e \<and>
      remainingSec e' = remainingSec e \<and> isFinished e' = isFinished e)"
proof -
  have "title (run ops (QuizEngine qz)) = quiz_title qz"
    by (simp add: run_title) (simp add: QuizEngine_def Let_def)
  then show ?thesis
    by (simp add: Let_def fromState_def toState_def)
qed

theorem toState_fromState_roundtrip_witness:
  "currentIndex (fromState quiz2 (Some (toState (run [Select 1, Next, Tick] (QuizEngine quiz2))))) = 1 \<and>
   answers (fromState quiz2 (Some (toState (run [Select 1, Next, Tick] (QuizEngine quiz2))))) ''q1''
     = Some 1 \<and>
   remainingSec (fromState quiz2 (Some (toState (run [Select 1, Next, Tick] (QuizEngine quiz2))))) = 59"
proof -
  have "currentIndex (run [Select 1, Next, Tick] (QuizEngine quiz2)) = 1"
    and "answers (run [Select 1, Next, Tick] (QuizEngine quiz2)) ''q1'' = Some 1"
    and "remainingSec (run [Select 1, Next, Tick] (QuizEngine quiz2)) = 59"
    by (simp_all add: eval_defs quiz2_def)
  then show ?thesis
    using toState_fromState_roundtrip [of "[Select 1, Next, Tick]" quiz2]
    by (simp add: Let_def)
qed


text \<open>
  Claim C3, as the code has it. While not finished, \<open>tick()\<close> with
  \<open>0 < remainingSec < 2 ^ 53\<close> decrements the countdown by exactly one and, when that
  reaches \<open>0\<close>, finishes through the scoring pass; with \<open>remainingSec \<le> 0\<close> it scores
  at once without a decrement. With \<open>timeLimitSec = 1\<close> one tick leaves
  \<open>remainingSec = 0\<close>, \<open>isFinished\<close> and a summary. On a finished engine \<open>tick()\<close>
  returns at its first line: the engine is unchanged and no scoring is triggered.
\<close>

theorem tick_cases:
  "(\<not> isFinished e \<and> 1 < remainingSec e \<and> remainingSec e < 2 ^ 53 \<longrightarrow>
      tick e = e\<lparr>remainingSec := remainingSec e - 1\<rparr>) \<and>
   (\<not> isFinished e \<and> remainingSec e = 1 \<longrightarrow>
      tick e = snd (finish (e\<lparr>remainingSec := 0\<rparr>)) \<and>
      tick e = e\<lparr>remainingSec := 0, isFinished := True, summary_cache := Some (score e)\<rparr>) \<and>
   (\<not> isFinished e \<and> remainingSec e \<le> 0 \<longrightarrow>
      tick e = snd (finish e) \<and>
      tick e = e\<lparr>isFinished := True, summary_cache := Some (score e)\<rparr>) \<and>
   (isFinished e \<longrightarrow> tick e = e) \<and>
   (quiz_timeLimitSec qz = 1 \<longrightarrow>
      remainingSec (tick (QuizEngine qz)) = 0 \<and> isFinished (tick (QuizEngine qz)) \<and>
      summary_cache (tick (QuizEngine qz)) = Some (score (QuizEngine qz)))"
proof (intro conjI impI)
  assume a: "\<not> isFinished e \<and> 1 < remainingSec e \<and> remainingSec e < 2 ^ 53"
  then have "\<bar>remainingSec e - 1\<bar> \<le> 2 ^ 53"
    by simp
  then have "round_double (remainingSec e - 1) = remainingSec e - 1"
    by (rule round_double_exact)
  with a show "tick e = e\<lparr>remainingSec := remainingSec e - 1\<rparr>"
    by (simp add: tick_def Let_def)
next
  assume a: "\<not> isFinished e \<and> remainingSec e = 1"
  then show "tick e = snd (finish (e\<lparr>remainingSec := 0\<rparr>))"
    by (simp add: tick_def Let_def)
  from a show "tick e = e\<lparr>remainingSec := 0, isFinished := True, summary_cache := Some (score e)\<rparr>"
    by (simp add: tick_def finish_def Let_def)
next
  assume a: "\<not> isFinished e \<and> remainingSec e \<le> 0"
  then show "tick e = snd (finish e)"
    by (simp add: tick_def)
  from a show "tick e = e\<lparr>isFinished := True, summary_cache := Some (score e)\<rparr>"
    by (simp add: tick_def finish_def Let_def)
next
  assume "isFinished e"
  then show "tick e = e"
    by (simp add: tick_def)
next
  assume a: "quiz_timeLimitSec qz = 1"
  then show "remainingSec (tick (QuizEngine qz)) = 0"
    by (simp add: tick_def finish_def QuizEngine_def Let_def)
  from a show "isFinished (tick (QuizEngine qz))"
    by (simp add: tick_def finish_def QuizEngine_def Let_def)
  from a have "tick (QuizEngine qz) = snd (finish ((QuizEngine qz)\<lparr>remainingSec := 0\<rparr>))"
    by (simp add: tick_def QuizEngine_def Let_def)
  moreover have "\<not> isFinished (QuizEngine qz)"
    by (simp add: QuizEngine_def Let_def)
  ultimately show "summary_cache (tick (QuizEngine qz)) = Some (score (QuizEngine qz))"
    by (simp add: finish_def Let_def)
qed

theorem tick_cases_witness:
  "remainingSec (tick (QuizEngine quiz2)) = 59 \<and> \<not> isFinished (tick (QuizEngine quiz2)) \<and>
   remainingSec (tick (QuizEngine quiz_1s)) = 0 \<and> isFinished (tick (QuizEngine quiz_1s)) \<and>
   summary_cache (tick (QuizEngine quiz_1s))
     = Some \<lparr> correct = 0, total = 1, percent = 0, passed = False \<rparr> \<and>
   remainingSec (tick ((QuizEngine quiz2)\<lparr>remainingSec := 0\<rparr>)) = 0 \<and>
   isFinished (tick ((QuizEngine quiz2)\<lparr>remainingSec := 0\<rparr>)) \<and>
   tick reloaded_finished = reloaded_finished"
proof -
  have a: "\<not> isFinished (QuizEngine quiz2) \<and> 1 < remainingSec (QuizEngine quiz2) \<and>
           remainingSec (QuizEngine quiz2) < 2 ^ 53"
    by (simp add: QuizEngine_def quiz2_def)
  have b: "quiz_timeLimitSec quiz_1s = 1"
    by (simp add: quiz_1s_def)
  have c: "\<not> isFinished ((QuizEngine quiz2)\<lparr>remainingSec := 0\<rparr>) \<and>
           remainingSec ((QuizEngine quiz2)\<lparr>remainingSec := 0\<rparr>) \<le> 0"
    by (simp add: QuizEngine_def quiz2_def)
  have d: "isFinished reloaded_finished"
    by (simp add: reloaded_finished_def eval_defs quiz2_def)
  have s: "score (QuizEngine quiz_1s) = \<lparr> correct = 0, total = 1, percent = 0, passed = False \<rparr>"
    by (simp add: eval_defs quiz_1s_def)
  have r: "remainingSec (QuizEngine quiz2) = 60"
    by (simp add: QuizEngine_def quiz2_def)
  have t: "tick (QuizEngine quiz2) = (QuizEngine quiz2)\<lparr>remainingSec := 59\<rparr>"
    using a r tick_cases [of "QuizEngine quiz2" quiz_1s] by simp
  show ?thesis
    using b c d s t
      tick_cases [of "(QuizEngine quiz2)\<lparr>remainingSec := 0\<rparr>" quiz_1s]
      tick_cases [of reloaded_finished quiz_1s]
    by (simp add: finish_def Let_def)
qed

text \<open>
  On the engine reloaded from a finished snapshot the cache is empty: \<open>tick()\<close> leaves
  it empty, where a scoring pass would fill it. With \<open>10 ^ 16\<close> seconds on the clock
  the decrement is lost in the rounding and the countdown stands still.
\<close>

theorem tick_finished_counterexample:
  "isFinished reloaded_finished \<and>
   tick reloaded_finished \<noteq> snd (finish reloaded_finished) \<and>
   summary_cache (tick reloaded_finished) = None \<and>
   summary_cache (snd (finish reloaded_finished))
     = Some \<lparr> correct = 0, total = 2, percent = 0, passed = False \<rparr> \<and>
   \<not> isFinished (QuizEngine quiz_long) \<and>
   remainingSec (QuizEngine quiz_long) = 10000000000000000 \<and>
   remainingSec (tick (QuizEngine quiz_long)) = 10000000000000000"
proof -
  have "isFinished reloaded_finished \<and>
        tick reloaded_finished \<noteq> snd (finish reloaded_finished) \<and>
        summary_cache (tick reloaded_finished) = None \<and>
        summary_cache (snd (finish reloaded_finished))
          = Some \<lparr> correct = 0, total = 2, percent = 0, passed = False \<rparr>"
    by (simp add: reloaded_finished_def eval_defs quiz2_def)
  moreover have "\<not> isFinished (QuizEngine quiz_long) \<and>
        remainingSec (QuizEngine quiz_long) = 10000000000000000 \<and>
        remainingSec (tick (QuizEngine quiz_long)) = 10000000000000000"
    by (simp add: tick_def QuizEngine_def quiz_long_def Let_def round_double_1e16)
  ultimately show ?thesis
    by simp
qed

text \<open>
  Claim C4. Finished is terminal: on a finished engine every operation, and hence every
  sequence of operations, leaves \<open>isFinished\<close> true.
\<close>

theorem finished_is_terminal:
  "isFinished e \<Longrightarrow> isFinished (apply_op op e) \<and> isFinished (run ops e)"
  by (simp add: apply_op_isFinished run_isFinished)

theorem finished_is_terminal_witness:
  "isFinished (snd (finish (QuizEngine quiz2))) \<and>
   isFinished (apply_op (Select 1) (snd (finish (QuizEngine quiz2)))) \<and>
   isFinished (run [Prev, Tick, GoTo 1, Select 0, Finish, Next] (snd (finish (QuizEngine quiz2))))"
proof -
  have h: "isFinished (snd (finish (QuizEngine quiz2)))"
    by (simp add: finish_def QuizEngine_def Let_def)
  show ?thesis
    using h finished_is_terminal [OF h, of "Select 1" "[Prev, Tick, GoTo 1, Select 0, Finish, Next]"]
    by simp
qed

text \<open>
  Claim C5. \<open>select(i)\<close> on an active engine, with \<open>i\<close> a valid option of the
  question under the cursor, is to store \<open>i\<close> under that question's id. The code does
  so by \<open>this.answers[q.id] = optIdx\<close> on a plain object, which stores nothing when
  the id is \<open>__proto__\<close>. In \<open>quiz_proto\<close>, after answering the first question and
  moving to the second, the engine is active, the cursor is on the question with id
  \<open>__proto__\<close> and option \<open>1\<close> is valid and correct; yet \<open>select(1)\<close> returns the
  engine as it was, no answer is recorded for that question, and \<open>finish()\<close> counts one
  correct answer where two were given.
\<close>

theorem select_proto_dropped:
  "\<not> isFinished (run [Select 1, Next] (QuizEngine quiz_proto)) \<and>
   currentIndex (run [Select 1, Next] (QuizEngine quiz_proto)) = 1 \<and>
   currentQuestion (run [Select 1, Next] (QuizEngine quiz_proto))
     = Some \<lparr> id_q = ''__proto__'', text_q = ''second'', options = [''a'', ''b''],
              correctIndex = 1, topic = None \<rparr> \<and>
   select 1 (run [Select 1, Next] (QuizEngine quiz_proto))
     = run [Select 1, Next] (QuizEngine quiz_proto) \<and>
   answers (run [Select 1, Next, Select 1] (QuizEngine quiz_proto)) ''__proto__'' = None \<and>
   answers (run [Select 1, Next, Select 1] (QuizEngine quiz_proto)) ''q1'' = Some 1 \<and>
   fst (finish (run [Select 1, Next, Select 1] (QuizEngine quiz_proto)))
     = \<lparr> correct = 1, total = 2, percent = 1 / 2, passed = True \<rparr>"
  by (simp add: eval_defs assign_property_def quiz_proto_def)

text \<open>
  Claim C6, as the code has it. A fresh engine takes \<open>title\<close> from the quiz;
  \<open>timeLimitSec\<close> is the quiz's value unless that is \<open>0\<close>, when it is \<open>300\<close>;
  \<open>passThreshold\<close> is the quiz's value unless that is \<open>0\<close>, when it is \<open>0.7\<close>.
  It starts with \<open>currentIndex = 0\<close>, no answers, \<open>remainingSec\<close> equal to its own
  \<open>timeLimitSec\<close>, not finished and with no cached summary.
\<close>

theorem QuizEngine_initial:
  "title (QuizEngine qz) = quiz_title qz \<and>
   timeLimitSec (QuizEngine qz)
     = (if quiz_timeLimitSec qz = 0 then 300 else quiz_timeLimitSec qz) \<and>
   passThreshold (QuizEngine qz)
     = (if quiz_passThreshold qz = 0 then 7 / 10 else quiz_passThreshold qz) \<and>
   currentIndex (QuizEngine qz) = 0 \<and>
   answers (QuizEngine qz) = Map.empty \<and>
   remainingSec (QuizEngine qz) = timeLimitSec (QuizEngine qz) \<and>
   \<not> isFinished (QuizEngine qz) \<and>
   summary_cache (QuizEngine qz) = None"
  by (simp add: QuizEngine_def Let_def)

theorem QuizEngine_initial_witness:
  "title (QuizEngine quiz2) = ''Demo'' \<and> timeLimitSec (QuizEngine quiz2) = 60 \<and>
   passThreshold (QuizEngine quiz2) = 1 / 2 \<and> remainingSec (QuizEngine quiz2) = 60 \<and>
   timeLimitSec (QuizEngine (quiz2\<lparr>quiz_timeLimitSec := 0\<rparr>)) = 300"
  using QuizEngine_initial [of quiz2] QuizEngine_initial [of "quiz2\<lparr>quiz_timeLimitSec := 0\<rparr>"]
  by (simp add: quiz2_def)

text \<open>A pass threshold of \<open>0\<close> is replaced by the default \<open>0.7\<close>.\<close>

theorem QuizEngine_verbatim_counterexample:
  "quiz_passThreshold quiz_free = 0 \<and> passThreshold (QuizEngine quiz_free) = 7 / 10 \<and>
   passThreshold (QuizEngine quiz_free) \<noteq> quiz_passThreshold quiz_free"
  by (simp add: QuizEngine_def quiz_free_def)

text \<open>
  Claim C7, as the code has it. \<open>goTo(idx)\<close> clamps from below first and from above
  second: \<open>currentIndex\<close> becomes \<open>min(max(idx, 0), length - 1)\<close> and nothing else
  changes. With at least one question this is \<open>max(0, min(idx, length - 1))\<close>; on a
  quiz without questions it is \<open>-1\<close>.
\<close>

theorem goTo_clamps:
  "currentIndex (goTo idx e) = min (max idx 0) (length_e e - 1) \<and>
   goTo idx e = e\<lparr>currentIndex := min (max idx 0) (length_e e - 1)\<rparr> \<and>
   (questions e \<noteq> [] \<longrightarrow> currentIndex (goTo idx e) = max 0 (min idx (length_e e - 1)))"
  by (auto simp: goTo_def Let_def length_e_def min_def max_def)

theorem goTo_clamps_witness:
  "currentIndex (goTo 7 (QuizEngine quiz2)) = 1 \<and>
   currentIndex (goTo (- 3) (QuizEngine quiz2)) = 0 \<and>
   currentIndex (goTo 1 (QuizEngine quiz2)) = 1"
proof -
  have ne: "questions (QuizEngine quiz2) \<noteq> []"
    and len: "length_e (QuizEngine quiz2) = 2"
    by (simp_all add: QuizEngine_def length_e_def quiz2_def)
  show ?thesis
    using ne len goTo_clamps [of 7 "QuizEngine quiz2"] goTo_clamps [of "- 3" "QuizEngine quiz2"]
      goTo_clamps [of 1 "QuizEngine quiz2"]
    by simp
qed

text \<open>Without questions the upper clamp runs last and leaves \<open>-1\<close>.\<close>

theorem goTo_empty_counterexample:
  "currentIndex (goTo 0 (QuizEngine quiz0))
     \<noteq> max 0 (min 0 (length_e (QuizEngine quiz0) - 1)) \<and>
   currentIndex (goTo 0 (QuizEngine quiz0)) = - 1 \<and>
   max 0 (min 0 (length_e (QuizEngine quiz0) - 1)) = 0"
  by (simp add: goTo_def QuizEngine_def length_e_def quiz0_def Let_def)

text \<open>
  Claim C8. Without a snapshot, or with a snapshot whose \<open>quizTitle\<close> differs from the
  quiz's title, \<open>fromState\<close> returns exactly the freshly constructed engine.
\<close>

theorem fromState_mismatch:
  "st = None \<or> (\<exists>s. st = Some s \<and> quizTitle s \<noteq> quiz_title qz) \<Longrightarrow>
   fromState qz st = QuizEngine qz"
  by (auto simp: fromState_def Let_def)

theorem fromState_mismatch_witness:
  "fromState quiz2 None = QuizEngine quiz2 \<and>
   fromState quiz2 (Some (toState (run [Select 0, Tick, Finish] (QuizEngine quiz_1s))))
     = QuizEngine quiz2"
proof -
  let ?s = "toState (run [Select 0, Tick, Finish] (QuizEngine quiz_1s))"
  have "quizTitle ?s \<noteq> quiz_title quiz2"
    by (simp add: toState_def run_title) (simp add: QuizEngine_def quiz_1s_def quiz2_def)
  then have h: "Some ?s = None \<or> (\<exists>s. Some ?s = Some s \<and> quizTitle s \<noteq> quiz_title quiz2)"
    by simp
  have n: "(None :: snapshot option) = None \<or>
           (\<exists>s. None = Some s \<and> quizTitle s \<noteq> quiz_title quiz2)"
    by simp
  show ?thesis
    using fromState_mismatch [OF n] fromState_mismatch [OF h] by simp
qed



text \<open>
  Claim C10. \<open>next()\<close>, \<open>prev()\<close> and \<open>goTo(idx)\<close> change \<open>currentIndex\<close> only:
  \<open>answers\<close>, \<open>remainingSec\<close>, \<open>isFinished\<close>, the cached summary and the
  configuration are as before, on active and on finished engines alike.
\<close>

theorem navigation_frame:
  "next_e e = e\<lparr>currentIndex := currentIndex (next_e e)\<rparr> \<and>
   prev_e e = e\<lparr>currentIndex := currentIndex (prev_e e)\<rparr> \<and>
   goTo idx e = e\<lparr>currentIndex := currentIndex (goTo idx e)\<rparr> \<and>
   answers (next_e e) = answers e \<and> remainingSec (next_e e) = remainingSec e \<and>
   isFinished (next_e e) = isFinished e \<and> summary_cache (next_e e) = summary_cache e \<and>
   answers (prev_e e) = answers e \<and> remainingSec (prev_e e) = remainingSec e \<and>
   isFinished (prev_e e) = isFinished e \<and> summary_cache (prev_e e) = summary_cache e \<and>
   answers (goTo idx e) = answers e \<and> remainingSec (goTo idx e) = remainingSec e \<and>
   isFinished (goTo idx e) = isFinished e \<and> summary_cache (goTo idx e) = summary_cache e"
  by (simp add: next_e_def prev_e_def goTo_def Let_def)

theorem navigation_frame_witness:
  "answers (next_e (select 1 (QuizEngine quiz2))) ''q1'' = Some 1 \<and>
   remainingSec (goTo 1 (tick (QuizEngine quiz2))) = 59 \<and>
   isFinished (prev_e (snd (finish (QuizEngine quiz2))))"
proof -
  have "answers (select 1 (QuizEngine quiz2)) ''q1'' = Some 1"
    and "remainingSec (tick (QuizEngine quiz2)) = 59"
    and "isFinished (snd (finish (QuizEngine quiz2)))"
    by (simp_all add: eval_defs quiz2_def)
  then show ?thesis
    using navigation_frame [of "select 1 (QuizEngine quiz2)" 0]
      navigation_frame [of "tick (QuizEngine quiz2)" 1]
      navigation_frame [of "snd (finish (QuizEngine quiz2))" 0]
    by simp
qed

end
